theory Spec2Isabelle
  imports Main
begin

section \<open>Strings of the host language\<close>

text \<open>
  A JavaScript string is modelled as a list of characters, an offset into it as a natural
  number. \<open>substring\<close> is \<open>String.prototype.substring\<close>: both bounds are clamped to the
  length of the string, a missing end bound is the length, and the two bounds are
  swapped when the start lies behind the end.
\<close>

definition substring :: "string \<Rightarrow> nat \<Rightarrow> nat option \<Rightarrow> string" where
  "substring s start end_opt =
     (let len = length s;
          a = min start len;
          b = (case end_opt of None \<Rightarrow> len | Some e \<Rightarrow> min e len)
      in take (max a b - min a b) (drop (min a b) s))"

definition startsWith :: "string \<Rightarrow> string \<Rightarrow> bool" where
  "startsWith s p = (take (length p) s = p)"

definition endsWith :: "string \<Rightarrow> string \<Rightarrow> bool" where
  "endsWith s p = (length p \<le> length s \<and> drop (length s - length p) s = p)"

text \<open>Decimal text of a number, as a template literal prints it.\<close>

definition digit :: "nat \<Rightarrow> char" where
  "digit d = ''0123456789'' ! (d mod 10)"

function show_nat :: "nat \<Rightarrow> string" where
  "show_nat n = (if n < 10 then [digit n] else show_nat (n div 10) @ [digit n])"
  by pat_completeness auto
termination
  by (relation "measure id") auto

definition show_int :: "int \<Rightarrow> string" where
  "show_int i = (if i < 0 then CHR ''-'' # show_nat (nat (- i)) else show_nat (nat i))"

section \<open>Markers of the client library\<close>

text \<open>
  \<open>marker\<close>, \<open>nodeMarker\<close> and \<open>boundAttributeSuffix\<close> are constants of lit-html. The
  marker is \<open>{{lit-DIGITS}}\<close> with digits drawn once per process; one fixed draw stands for
  it here. In the HTML of a result the first expression of an attribute value is the
  marker, a later one in the same value the node marker. \<open>markerRegex\<close> is the alternation of \<open>marker\<close> and \<open>nodeMarker\<close>, tried in this
  order at every position; \<open>matchMarker s\<close> is the length of its match at the head of
  \<open>s\<close>, if there is one.
\<close>

definition marker :: string where
  "marker = ''{{lit-7236451}}''"

definition nodeMarker :: string where
  "nodeMarker = ''<!--'' @ marker @ ''-->''"

definition boundAttributeSuffix :: string where
  "boundAttributeSuffix = ''$lit$''"

definition matchMarker :: "string \<Rightarrow> nat option" where
  "matchMarker s =
     (if startsWith s marker then Some (length marker)
      else if startsWith s nodeMarker then Some (length nodeMarker)
      else None)"

text \<open>
  \<open>splitMarker cur s\<close> is \<open>s.split(markerRegex)\<close>, with \<open>cur\<close> the text read since the
  last match: the pieces of \<open>s\<close> between the matches, from left to right.
\<close>

function splitMarker :: "string \<Rightarrow> string \<Rightarrow> string list" where
  "splitMarker cur [] = [cur]"
| "splitMarker cur (c # cs) =
     (case matchMarker (c # cs) of
        Some k \<Rightarrow> cur # splitMarker [] (drop (k - 1) cs)
      | None \<Rightarrow> splitMarker (cur @ [c]) cs)"
  by pat_completeness auto
termination
  by (relation "measure (\<lambda>(cur, s). length s)") auto

definition split_markerRegex :: "string \<Rightarrow> string list" where
  "split_markerRegex s = splitMarker [] s"

section \<open>The offset primitives of renderTemplateResult\<close>

datatype error =
    LastOffsetUndefined
  | OffsetBackwards nat nat
  | BooleanAttributeError
  | UnexpectedFinalPartIndex nat nat
  | TypeError
  | Thrown string
  | OutOfFuel

text \<open>
  The three cursors that \<open>renderTemplateResult\<close> closes over: the next value to
  render, the index of the current template part, and the last offset of the HTML
  written to the stream (undefined once the tail has been flushed).
\<close>

record cursor =
  partIndex :: nat
  templatePartIndex :: int
  lastOffset :: "nat option"

definition flushTo :: "string \<Rightarrow> nat option \<Rightarrow> cursor \<Rightarrow> error + string \<times> cursor" where
  "flushTo html offset cur =
     (case lastOffset cur of
        None \<Rightarrow> Inl LastOffsetUndefined
      | Some previousLastOffset \<Rightarrow>
          Inr (substring html previousLastOffset offset, cur\<lparr>lastOffset := offset\<rparr>))"

definition skipTo :: "nat \<Rightarrow> cursor \<Rightarrow> error + cursor" where
  "skipTo offset cur =
     (case lastOffset cur of
        None \<Rightarrow> Inl LastOffsetUndefined
      | Some lo \<Rightarrow>
          if offset < lo then Inl (OffsetBackwards offset lo)
          else Inr (cur\<lparr>lastOffset := Some offset\<rparr>))"

section \<open>Values of binding expressions\<close>

text \<open>
  The values a template can carry. Numbers are the integers that \<open>String\<close> prints in
  decimal digits (those below \<open>10^21\<close> in magnitude); a directive is a tagged
  value, as the capability checks \<open>isRepeatDirective\<close>, \<open>isRenderLightDirective\<close>
  and \<open>isClassMapDirective\<close> tell them apart. A repeat directive carries the key of
  its pre-renderer, a class-map directive the text its pre-renderer returns. The
  strings array of a template result is compared by identity, so it carries one.
\<close>

datatype val =
    Undefined
  | Null
  | Bool bool
  | Num int
  | Str string
  | Nothing
  | NoChange
  | Arr "val list"
  | TR tresult
  | RepeatDirective nat
  | RenderLightDirective
  | ClassMapDirective string
and tresult =
  TemplateResult (strings_id: nat) (strings: "string list") (vals: "val list")
    (digest: string) (getHTML: string)

text \<open>\<open>result.values[i]\<close>: undefined outside the array.\<close>

definition valueAt :: "tresult \<Rightarrow> nat \<Rightarrow> val" where
  "valueAt result i = (if i < length (vals result) then vals result ! i else Undefined)"

text \<open>\<open>result.strings[i]\<close> as the regular expression reads it: undefined is converted to text.\<close>

definition stringAt :: "tresult \<Rightarrow> nat \<Rightarrow> string" where
  "stringAt result i =
     (if i < length (strings result) then strings result ! i else ''undefined'')"

fun truthy :: "val \<Rightarrow> bool" where
  "truthy Undefined = False"
| "truthy Null = False"
| "truthy (Bool b) = b"
| "truthy (Num i) = (i \<noteq> 0)"
| "truthy (Str s) = (s \<noteq> [])"
| "truthy _ = True"

fun join :: "string \<Rightarrow> string list \<Rightarrow> string" where
  "join sep [] = []"
| "join sep [x] = x"
| "join sep (x # y # ys) = x @ sep @ join sep (y # ys)"

text \<open>
  \<open>String(value)\<close>. The text of a function (a directive) is its source, which the
  caller supplies as \<open>fnText\<close>.
\<close>

fun String_val :: "(val \<Rightarrow> string) \<Rightarrow> val \<Rightarrow> string" where
  "String_val fnText Undefined = ''undefined''"
| "String_val fnText Null = ''null''"
| "String_val fnText (Bool b) = (if b then ''true'' else ''false'')"
| "String_val fnText (Num i) = show_int i"
| "String_val fnText (Str s) = s"
| "String_val fnText Nothing = ''[object Object]''"
| "String_val fnText NoChange = ''[object Object]''"
| "String_val fnText (Arr vs) =
     join '','' (map (\<lambda>v. if v = Undefined \<or> v = Null then [] else String_val fnText v) vs)"
| "String_val fnText (TR r) = ''[object Object]''"
| "String_val fnText (RepeatDirective k) = fnText (RepeatDirective k)"
| "String_val fnText RenderLightDirective = fnText RenderLightDirective"
| "String_val fnText (ClassMapDirective c) = fnText (ClassMapDirective c)"

section \<open>The parsed tree\<close>

text \<open>
  The tree that parse5 returns with \<open>sourceCodeLocationInfo\<close> on. Its nodes are elements
  with their attributes, the offsets of each attribute and of the end of the start tag;
  comments with their text and offsets; text nodes. Its root, the value of
  \<open>parseFragment\<close>, is a document fragment, which parse5 always gives its
  \<open>childNodes\<close> array.
\<close>

record attribute =
  attr_name :: string
  attr_value :: string

record location =
  startOffset :: nat
  endOffset :: nat

record elementLocation =
  attrs_location :: "(string \<times> location) list"
  startTag_endOffset :: nat

datatype node =
    Element string "attribute list" elementLocation "node list"
  | CommentNode string location
  | TextNode string

datatype fragment = DocumentFragment "node list"

text \<open>
  Modelled from the spec: \<open>isCommentNode\<close> and \<open>isElement\<close> of \<open>parse5-utils\<close> are not
  among the sources. They tell the kind of a node: a comment is a \<open>CommentNode\<close>
  (functions over nodes match on it), an element an \<open>Element\<close>.
\<close>

fun isElement :: "node \<Rightarrow> bool" where
  "isElement (Element t as l cs) = True"
| "isElement _ = False"

text \<open>
  \<open>ast.childNodes\<close> as the guard of \<open>renderTemplateResult\<close> reads it, where \<open>None\<close>
  stands for undefined: the array of a fragment is always there.
\<close>

fun childNodes :: "fragment \<Rightarrow> node list option" where
  "childNodes (DocumentFragment cs) = Some cs"

fun tagName :: "node \<Rightarrow> string" where
  "tagName (Element t as l cs) = t"
| "tagName _ = []"

text \<open>
  Modelled from the spec: \<open>depthFirst\<close> of \<open>parse5-utils\<close> is not among the sources. The
  spec calls the traversal depth-first pre-order, started at index \<open>-1\<close> so that the first
  child of the root is index 0: the node itself comes first, then the traversals of its
  children in order.
\<close>

fun depthFirst :: "node \<Rightarrow> node list" where
  "depthFirst (Element t as l cs) = Element t as l cs # concat (map depthFirst cs)"
| "depthFirst (CommentNode d l) = [CommentNode d l]"
| "depthFirst (TextNode s) = [TextNode s]"

section \<open>Template parts and the template cache\<close>

datatype templatePart =
    NodePart int
  | AttributePart int string "string list"

fun part_index :: "templatePart \<Rightarrow> int" where
  "part_index (NodePart i) = i"
| "part_index (AttributePart i n ss) = i"

record template =
  html :: string
  ast :: fragment
  parts :: "templatePart list"

text \<open>The inner loop of \<open>getTemplate\<close> over the attributes of one element.\<close>

fun attributeParts :: "int \<Rightarrow> attribute list \<Rightarrow> templatePart list \<Rightarrow> templatePart list" where
  "attributeParts nodeIndex [] ps = ps"
| "attributeParts nodeIndex (attr # rest) ps =
     (if endsWith (attr_name attr) boundAttributeSuffix
      then attributeParts nodeIndex rest
             (ps @ [AttributePart nodeIndex
                      (take (length (attr_name attr) - length boundAttributeSuffix) (attr_name attr))
                      (split_markerRegex (attr_value attr))])
      else attributeParts nodeIndex rest ps)"

text \<open>The body of the loop of \<open>getTemplate\<close> over the nodes: one node, the index and the parts so far.\<close>

fun extractNode :: "node \<Rightarrow> int \<times> templatePart list \<Rightarrow> int \<times> templatePart list" where
  "extractNode (CommentNode d l) (nodeIndex, ps) =
     (let ps' = (if d = marker then ps @ [NodePart nodeIndex] else ps);
          nodeIndex' = nodeIndex + 1
      in (nodeIndex' + 1, ps'))"
| "extractNode (Element t as l cs) (nodeIndex, ps) =
     (if length as > 0 then (nodeIndex + 1, attributeParts nodeIndex as ps)
      else (nodeIndex + 1, ps))"
| "extractNode n (nodeIndex, ps) = (nodeIndex + 1, ps)"

text \<open>
  The loop of \<open>getTemplate\<close> over \<open>depthFirst(ast)\<close>, from the index \<open>-1\<close>. The
  fragment itself comes first: it is neither a comment nor an element, so its turn
  only increments the index. The traversals of its children follow in order.
\<close>

fun extractParts :: "fragment \<Rightarrow> int \<times> templatePart list" where
  "extractParts (DocumentFragment cs) =
     fold extractNode (concat (map depthFirst cs)) (- 1 + 1, [])"

section \<open>Generators\<close>

text \<open>
  A generator function yields chunks of text and then returns or throws: its run is the
  list of the chunks yielded, with the value returned or the error thrown. The chunks
  yielded before an error stay in the stream. The state at an error is not kept.
\<close>

type_synonym 'a gen = "string list \<times> (error + 'a)"

definition gen_return :: "'a \<Rightarrow> 'a gen" where
  "gen_return x = ([], Inr x)"

definition gen_throw :: "error \<Rightarrow> 'a gen" where
  "gen_throw e = ([], Inl e)"

definition gen_yield :: "string \<Rightarrow> unit gen" where
  "gen_yield s = ([s], Inr ())"

definition gen_lift :: "error + 'a \<Rightarrow> 'a gen" where
  "gen_lift r = ([], r)"

definition gen_bind :: "'a gen \<Rightarrow> ('a \<Rightarrow> 'b gen) \<Rightarrow> 'b gen" where
  "gen_bind m f =
     (case m of
        (cs, Inl e) \<Rightarrow> (cs, Inl e)
      | (cs, Inr x) \<Rightarrow> (case f x of (cs', r) \<Rightarrow> (cs @ cs', r)))"

section \<open>The render state and the collaborators\<close>

text \<open>
  A custom element instance has its properties and its \<open>renderLight\<close> method, which
  reads them. Instances live in a heap and are referred to by their index, since the
  frame of the render context and the local variable of \<open>handleNode\<close> hold the same
  object; a reference is made by \<open>instantiate\<close> only, and is an index into the heap.
  \<open>world\<close> is what a render can change: the frames of \<open>renderInfo.instances\<close>, the
  heap, the module's \<open>templateCache\<close> (keyed by the identity of the strings array) and
  the lines written by \<open>console.error\<close>.
\<close>

record litElement =
  properties :: "string \<rightharpoonup> val"
  renderLight :: "(string \<rightharpoonup> val) \<Rightarrow> error + val"

record frame =
  frame_tagName :: string
  frame_instance :: "nat option"

record world =
  instances :: "frame list"
  heap :: "litElement list"
  templateCache :: "nat \<rightharpoonup> template"
  console :: "(string \<times> error) list"

text \<open>
  What the renderer takes from outside this file: the parser of parse5; the registry
  \<open>customElements.get\<close>, giving for a tag name the outcome of \<open>new ctor()\<close>;
  \<open>reflectedAttributeName\<close>; the second group of \<open>lastAttributeNameRegex.exec\<close>, if the
  expression matches; \<open>LitElementRenderer.renderElement\<close>; the pre-renderer of a
  repeat directive; the source text of a directive function.
\<close>

record env =
  parseFragment :: "string \<Rightarrow> fragment"
  customElements_get :: "string \<Rightarrow> (error + litElement) option"
  reflectedAttributeName :: "string \<Rightarrow> string \<Rightarrow> string option"
  lastAttributeName :: "string \<Rightarrow> string option"
  renderElement :: "nat \<Rightarrow> world \<Rightarrow> world gen"
  repeatPreRenderer :: "nat \<Rightarrow> world \<Rightarrow> world gen"
  fnText :: "val \<Rightarrow> string"

definition getTemplate :: "env \<Rightarrow> tresult \<Rightarrow> world \<Rightarrow> template \<times> world" where
  "getTemplate env result w =
     (case templateCache w (strings_id result) of
        Some t \<Rightarrow> (t, w)
      | None \<Rightarrow>
          (let h = getHTML result;
               a = parseFragment env h;
               t = \<lparr>html = h, ast = a, parts = snd (extractParts a)\<rparr>
           in (t, w\<lparr>templateCache := (templateCache w)(strings_id result \<mapsto> t)\<rparr>)))"

section \<open>Attribute bindings\<close>

text \<open>
  \<open>replaceMarkers\<close> is \<open>attr.value.replace(globalMarkerRegex, ...)\<close> of \<open>getAttrValue\<close>:
  every match is replaced by the text of the next value, \<open>startIndex\<close> counting up.
\<close>

function replaceMarkers :: "(val \<Rightarrow> string) \<Rightarrow> tresult \<Rightarrow> nat \<Rightarrow> string \<Rightarrow> string" where
  "replaceMarkers f result startIndex [] = []"
| "replaceMarkers f result startIndex (c # cs) =
     (case matchMarker (c # cs) of
        Some k \<Rightarrow>
          (case valueAt result startIndex of
             ClassMapDirective classes \<Rightarrow> classes
           | v \<Rightarrow> String_val f v)
          @ replaceMarkers f result (startIndex + 1) (drop (k - 1) cs)
      | None \<Rightarrow> c # replaceMarkers f result startIndex cs)"
  by pat_completeness auto
termination
  by (relation "measure (\<lambda>(f, r, i, s). length s)") auto

definition getAttrValue :: "env \<Rightarrow> attribute \<Rightarrow> tresult \<Rightarrow> nat \<Rightarrow> string" where
  "getAttrValue env attr result startIndex =
     replaceMarkers (fnText env) result startIndex (attr_value attr)"

text \<open>\<open>instance[propertyName] = value\<close> on the object a reference points to.\<close>

definition setProperty :: "nat \<Rightarrow> string \<Rightarrow> val \<Rightarrow> world \<Rightarrow> world" where
  "setProperty ref propertyName v w =
     w\<lparr>heap := (heap w)[ref := (heap w ! ref)
          \<lparr>properties := (properties (heap w ! ref))(propertyName \<mapsto> v)\<rparr>]\<rparr>"

text \<open>
  The four kinds of binding, chosen by the first character of the name found in the
  strings of the result: what is yielded, and how far the value cursor moves.
\<close>

definition bindAttr ::
  "env \<Rightarrow> tresult \<Rightarrow> string \<Rightarrow> nat option \<Rightarrow> attribute \<Rightarrow> string \<Rightarrow> string \<Rightarrow> string list
     \<Rightarrow> cursor \<times> world \<Rightarrow> (cursor \<times> world) gen" where
  "bindAttr env result tag inst attr name attributeName statics = (\<lambda>(cur, w).
     if startsWith name ''.'' then
       (let propertyName = drop 1 name;
            (v, cur1) =
              (if length statics = 2
               then (valueAt result (partIndex cur), cur\<lparr>partIndex := partIndex cur + 1\<rparr>)
               else (Str (getAttrValue env attr result (partIndex cur)),
                     cur\<lparr>partIndex := partIndex cur + (length statics - 1)\<rparr>));
            w1 = (case inst of None \<Rightarrow> w | Some ref \<Rightarrow> setProperty ref propertyName v w)
        in case reflectedAttributeName env tag propertyName of
             None \<Rightarrow> gen_return (cur1, w1)
           | Some reflectedName \<Rightarrow>
               gen_bind (gen_yield (reflectedName @ ''=\"'' @ String_val (fnText env) v @ ''\"''))
                 (\<lambda>_. gen_return (cur1, w1)))
     else if startsWith name ''@'' then
       gen_return (cur\<lparr>partIndex := partIndex cur + (length statics - 1)\<rparr>, w)
     else if startsWith name ''?'' then
       (if length statics \<noteq> 2 \<or> statics ! 0 \<noteq> [] \<or> statics ! 1 \<noteq> []
        then gen_throw BooleanAttributeError
        else
          (let v = valueAt result (partIndex cur);
               cur1 = cur\<lparr>partIndex := partIndex cur + 1\<rparr>
           in if truthy v
              then gen_bind (gen_yield (drop 1 attributeName)) (\<lambda>_. gen_return (cur1, w))
              else gen_return (cur1, w)))
     else
       gen_bind
         (gen_yield (attributeName @ ''=\"'' @ getAttrValue env attr result (partIndex cur) @ ''\"''))
         (\<lambda>_. gen_return (cur\<lparr>partIndex := partIndex cur + (length statics - 1)\<rparr>, w)))"

text \<open>
  The body of the loop over \<open>node.attrs\<close>; the third component of the state counts the
  bound attributes.
\<close>

definition handleAttr ::
  "env \<Rightarrow> tresult \<Rightarrow> template \<Rightarrow> string \<Rightarrow> elementLocation \<Rightarrow> nat option \<Rightarrow> attribute
     \<Rightarrow> cursor \<times> world \<times> nat \<Rightarrow> (cursor \<times> world \<times> nat) gen" where
  "handleAttr env result t tag loc inst attr = (\<lambda>(cur, w, boundAttrsCount).
     if \<not> endsWith (attr_name attr) ''$lit$'' then gen_return (cur, w, boundAttrsCount)
     else
       (case lastAttributeName env (stringAt result (partIndex cur)) of
          None \<Rightarrow> gen_throw TypeError
        | Some name \<Rightarrow>
            (case map_of (attrs_location loc) (attr_name attr) of
               None \<Rightarrow> gen_throw TypeError
             | Some attrSourceLocation \<Rightarrow>
                 (let statics = split_markerRegex (attr_value attr);
                      attributeName =
                        take (length (attr_name attr) - length boundAttributeSuffix) (attr_name attr)
                  in gen_bind
                       (gen_yield
                          (substring (html t) (case lastOffset cur of None \<Rightarrow> 0 | Some lo \<Rightarrow> lo)
                             (Some (startOffset attrSourceLocation))))
                       (\<lambda>_. gen_bind
                          (bindAttr env result tag inst attr name attributeName statics (cur, w))
                          (\<lambda>(cur1, w1). gen_bind
                             (gen_lift (skipTo (endOffset attrSourceLocation) cur1))
                             (\<lambda>cur2. gen_return
                                (cur2\<lparr>templatePartIndex := templatePartIndex cur2 + 1\<rparr>,
                                 w1, boundAttrsCount + 1))))))))"

fun handleAttrs ::
  "env \<Rightarrow> tresult \<Rightarrow> template \<Rightarrow> string \<Rightarrow> elementLocation \<Rightarrow> nat option \<Rightarrow> attribute list
     \<Rightarrow> cursor \<times> world \<times> nat \<Rightarrow> (cursor \<times> world \<times> nat) gen" where
  "handleAttrs env result t tag loc inst [] st = gen_return st"
| "handleAttrs env result t tag loc inst (attr # rest) st =
     gen_bind (handleAttr env result t tag loc inst attr st)
       (handleAttrs env result t tag loc inst rest)"

section \<open>Elements\<close>

text \<open>
  The start of the element branch of \<open>handleNode\<close>: the instance, if one was
  constructed, whether the start tag is written, and the state. The assignment to the
  topmost frame is inside the \<open>try\<close>, so reading a frame of an empty stack is caught
  and logged like an exception of the constructor, after the local variable was set.
\<close>

definition constructorMessage :: string where
  "constructorMessage = ''Exception in custom element constructor''"

definition instantiate :: "env \<Rightarrow> string \<Rightarrow> world \<Rightarrow> nat option \<times> bool \<times> world" where
  "instantiate env tag w =
     (if CHR ''-'' \<notin> set tag then (None, False, w)
      else
        (case customElements_get env tag of
           None \<Rightarrow> (None, False, w)
         | Some (Inl e) \<Rightarrow> (None, True, w\<lparr>console := console w @ [(constructorMessage, e)]\<rparr>)
         | Some (Inr obj) \<Rightarrow>
             (let ref = length (heap w);
                  w1 = w\<lparr>heap := heap w @ [obj]\<rparr>
              in if instances w1 = []
                 then (Some ref, True,
                       w1\<lparr>console := console w1 @ [(constructorMessage, TypeError)]\<rparr>)
                 else (Some ref, True,
                       w1\<lparr>instances := butlast (instances w1)
                            @ [(last (instances w1))\<lparr>frame_instance := Some ref\<rparr>]\<rparr>))))"

text \<open>\<open>templateParts[i]\<close> for a number \<open>i\<close>.\<close>

definition partAt :: "templatePart list \<Rightarrow> int \<Rightarrow> templatePart option" where
  "partAt ps i = (if 0 \<le> i \<and> nat i < length ps then Some (ps ! nat i) else None)"

definition handleElement ::
  "env \<Rightarrow> tresult \<Rightarrow> template \<Rightarrow> string \<Rightarrow> attribute list \<Rightarrow> elementLocation
     \<Rightarrow> cursor \<times> world \<Rightarrow> (cursor \<times> world) gen" where
  "handleElement env result t tag as loc = (\<lambda>(cur, w).
     (case instantiate env tag w of (inst, writeTag, w1) \<Rightarrow>
        gen_bind (handleAttrs env result t tag loc inst as (cur, w1, 0))
          (\<lambda>(cur1, w2, boundAttrsCount).
             gen_bind
               (if writeTag \<or> boundAttrsCount > 0
                then gen_bind (gen_lift (flushTo (html t) (Some (startTag_endOffset loc)) cur1))
                       (\<lambda>(s, cur2). gen_bind (gen_yield s) (\<lambda>_. gen_return cur2))
                else gen_return cur1)
               (\<lambda>cur2.
                  gen_bind
                    (if boundAttrsCount > 0
                     then (case partAt (parts t) (templatePartIndex cur2) of
                             None \<Rightarrow> gen_throw TypeError
                           | Some templatePart \<Rightarrow>
                               gen_yield (''<!--lit-bindings '' @ show_int (part_index templatePart)
                                          @ ''-->''))
                     else gen_return ())
                    (\<lambda>_. case inst of
                            None \<Rightarrow> gen_return (cur2, w2)
                          | Some ref \<Rightarrow>
                              gen_bind (renderElement env ref w2)
                                (\<lambda>w3. gen_return (cur2, w3)))))))"

section \<open>The frames pushed around a top-level node\<close>

text \<open>
  \<open>traverse\<close> of the parse5-traverse package calls \<open>pre\<close> on a node, visits the
  children in order and calls \<open>post\<close> on the node. With the callbacks of
  \<open>renderTemplateResult\<close> it pushes a frame before an element and pops one after it.
  It runs to its end before the first node is handled.
\<close>

definition pushFrame :: "node \<Rightarrow> frame list \<Rightarrow> frame list" where
  "pushFrame n st =
     (if isElement n then st @ [\<lparr>frame_tagName = tagName n, frame_instance = None\<rparr>] else st)"

definition popFrame :: "node \<Rightarrow> frame list \<Rightarrow> frame list" where
  "popFrame n st = (if isElement n then butlast st else st)"

fun traverse :: "node \<Rightarrow> frame list \<Rightarrow> frame list" where
  "traverse (Element t as l cs) st =
     popFrame (Element t as l cs) (fold traverse cs (pushFrame (Element t as l cs) st))"
| "traverse (CommentNode d l) st = st"
| "traverse (TextNode s) st = st"

section \<open>Walking a template\<close>

definition initialCursor :: cursor where
  "initialCursor = \<lparr>partIndex = 0, templatePartIndex = - 1, lastOffset = Some 0\<rparr>"

text \<open>
  A marker comment: flush up to its start, skip to its end. The value cursor and the
  part cursor move by one.
\<close>

definition markerSpan :: "template \<Rightarrow> location \<Rightarrow> cursor \<Rightarrow> cursor gen" where
  "markerSpan t loc cur =
     gen_bind (gen_lift (flushTo (html t) (Some (startOffset loc)) cur))
       (\<lambda>(s, cur1).
          gen_bind (gen_yield s) (\<lambda>_. gen_lift (skipTo (endOffset loc) cur1)))"

definition nextPart :: "cursor \<Rightarrow> cursor" where
  "nextPart cur =
     cur\<lparr>partIndex := partIndex cur + 1, templatePartIndex := templatePartIndex cur + 1\<rparr>"

text \<open>
  \<open>handleNode\<close>, with \<open>renderValueAt i\<close> standing for
  \<open>renderValue(result.values[i], renderInfo)\<close>.
\<close>

fun handleNode ::
  "(nat \<Rightarrow> world \<Rightarrow> world gen) \<Rightarrow> env \<Rightarrow> tresult \<Rightarrow> template \<Rightarrow> node
     \<Rightarrow> cursor \<times> world \<Rightarrow> (cursor \<times> world) gen" where
  "handleNode renderValueAt env result t (CommentNode d loc) (cur, w) =
     (if d = marker then
        gen_bind (markerSpan t loc cur)
          (\<lambda>cur1. gen_bind (renderValueAt (partIndex cur1) w)
                    (\<lambda>w1. gen_return (nextPart cur1, w1)))
      else gen_return (cur, w))"
| "handleNode renderValueAt env result t (Element tag as loc cs) (cur, w) =
     handleElement env result t tag as loc (cur, w)"
| "handleNode renderValueAt env result t (TextNode s) (cur, w) = gen_return (cur, w)"

text \<open>The loop \<open>for (const child of depthFirst(node)) yield* handleNode(child)\<close>.\<close>

fun handleNodes ::
  "(nat \<Rightarrow> world \<Rightarrow> world gen) \<Rightarrow> env \<Rightarrow> tresult \<Rightarrow> template \<Rightarrow> node list
     \<Rightarrow> cursor \<times> world \<Rightarrow> (cursor \<times> world) gen" where
  "handleNodes renderValueAt env result t [] st = gen_return st"
| "handleNodes renderValueAt env result t (child # rest) st =
     gen_bind (handleNode renderValueAt env result t child st)
       (handleNodes renderValueAt env result t rest)"

definition enterNode :: "node \<Rightarrow> cursor \<times> world \<Rightarrow> cursor \<times> world" where
  "enterNode node = (\<lambda>(cur, w).
     (cur, w\<lparr>instances := traverse node (pushFrame node (instances w))\<rparr>))"

definition leaveNode :: "node \<Rightarrow> cursor \<times> world \<Rightarrow> cursor \<times> world" where
  "leaveNode node = (\<lambda>(cur, w). (cur, w\<lparr>instances := popFrame node (instances w)\<rparr>))"

text \<open>The outer loop over \<open>ast.childNodes\<close>.\<close>

fun renderChildNodes ::
  "(nat \<Rightarrow> world \<Rightarrow> world gen) \<Rightarrow> env \<Rightarrow> tresult \<Rightarrow> template \<Rightarrow> node list
     \<Rightarrow> cursor \<times> world \<Rightarrow> (cursor \<times> world) gen" where
  "renderChildNodes renderValueAt env result t [] st = gen_return st"
| "renderChildNodes renderValueAt env result t (node # rest) st =
     gen_bind (handleNodes renderValueAt env result t (depthFirst node) (enterNode node st))
       (\<lambda>st1. renderChildNodes renderValueAt env result t rest (leaveNode node st1))"

text \<open>The end of \<open>renderTemplateResult\<close>: the tail of the HTML, then the check of the value cursor.\<close>

definition finishTemplate :: "tresult \<Rightarrow> template \<Rightarrow> cursor \<times> world \<Rightarrow> world gen" where
  "finishTemplate result t = (\<lambda>(cur, w).
     gen_bind (gen_lift (flushTo (html t) None cur))
       (\<lambda>(s, cur1).
          gen_bind (gen_yield s)
            (\<lambda>_. if partIndex cur1 \<noteq> length (vals result)
                  then gen_throw
                         (UnexpectedFinalPartIndex (partIndex cur1) (length (vals result)))
                  else gen_return w)))"

text \<open>
  The body of \<open>renderTemplateResult\<close>, with its guard on \<open>ast.childNodes\<close>, which
  returns before the loop, the flush of the tail and the final check.
\<close>

definition renderTemplate ::
  "(nat \<Rightarrow> world \<Rightarrow> world gen) \<Rightarrow> env \<Rightarrow> tresult \<Rightarrow> world \<Rightarrow> world gen" where
  "renderTemplate renderValueAt env result w =
     (case getTemplate env result w of (t, w1) \<Rightarrow>
        (case childNodes (ast t) of
           None \<Rightarrow> gen_return w1
         | Some nodes \<Rightarrow>
             gen_bind (renderChildNodes renderValueAt env result t nodes (initialCursor, w1))
               (finishTemplate result t)))"

section \<open>Rendering a value\<close>

text \<open>
  A value is wrapped in an opening and a closing comment. \<open>closePart\<close> yields the
  closing comment after the branch has returned.
\<close>

definition closePart :: "world gen \<Rightarrow> world gen" where
  "closePart m =
     gen_bind m (\<lambda>w'. gen_bind (gen_yield ''<!--/lit-part-->'') (\<lambda>_. gen_return w'))"

definition barePart :: "world gen \<Rightarrow> world gen" where
  "barePart m = closePart (gen_bind (gen_yield ''<!--lit-part-->'') (\<lambda>_. m))"

definition digestPart :: "string \<Rightarrow> world gen \<Rightarrow> world gen" where
  "digestPart d m = closePart (gen_bind (gen_yield (''<!--lit-part '' @ d @ ''-->'')) (\<lambda>_. m))"

definition stringPart :: "env \<Rightarrow> val \<Rightarrow> world \<Rightarrow> world gen" where
  "stringPart env v w =
     barePart (gen_bind (gen_yield (String_val (fnText env) v)) (\<lambda>_. gen_return w))"

text \<open>
  \<open>renderValue\<close>, \<open>renderTemplateResult\<close> and the loop of \<open>renderValue\<close> over an
  array. The recursion follows the values, except where a render-light directive
  renders what \<open>renderLight()\<close> of the topmost instance returns, which can go on for
  ever: the first argument bounds the number of these steps along one path.
\<close>

function renderValue :: "nat \<Rightarrow> env \<Rightarrow> val \<Rightarrow> world \<Rightarrow> world gen"
  and renderArray :: "nat \<Rightarrow> env \<Rightarrow> val list \<Rightarrow> world \<Rightarrow> world gen"
  and renderTemplateResult :: "nat \<Rightarrow> env \<Rightarrow> tresult \<Rightarrow> world \<Rightarrow> world gen"
where
  "renderValue n env (TR r) w = digestPart (digest r) (renderTemplateResult n env r w)"
| "renderValue n env Undefined w = barePart (gen_return w)"
| "renderValue n env Null w = barePart (gen_return w)"
| "renderValue n env (RepeatDirective k) w = barePart (repeatPreRenderer env k w)"
| "renderValue n env RenderLightDirective w =
     barePart
       (case instances w of
          [] \<Rightarrow> gen_throw TypeError
        | f # fs \<Rightarrow>
            (case frame_instance (last (instances w)) of
               None \<Rightarrow> gen_return w
             | Some ref \<Rightarrow>
                 (case renderLight (heap w ! ref) (properties (heap w ! ref)) of
                    Inl e \<Rightarrow> gen_throw e
                  | Inr templateResult \<Rightarrow>
                      (case n of
                         0 \<Rightarrow> gen_throw OutOfFuel
                       | Suc m \<Rightarrow> renderValue m env templateResult w))))"
| "renderValue n env Nothing w = barePart (gen_return w)"
| "renderValue n env NoChange w = barePart (gen_return w)"
| "renderValue n env (Arr items) w = barePart (renderArray n env items w)"
| "renderValue n env (Bool b) w = stringPart env (Bool b) w"
| "renderValue n env (Num i) w = stringPart env (Num i) w"
| "renderValue n env (Str s) w = stringPart env (Str s) w"
| "renderValue n env (ClassMapDirective c) w = stringPart env (ClassMapDirective c) w"
| "renderArray n env [] w = gen_return w"
| "renderArray n env (item # items) w =
     gen_bind (renderValue n env item w) (renderArray n env items)"
| "renderTemplateResult n env result w =
     renderTemplate (\<lambda>i. renderValue n env (valueAt result i)) env result w"
  by pat_completeness auto
termination
proof -
  have size_valueAt: "size (valueAt result i) < size result" for result i
  proof (cases result)
    case (TemplateResult a b vs d h)
    have "i < length vs \<Longrightarrow> size (vs ! i) < Suc (size_list size vs)"
      using size_list_estimation'[of "vs ! i" vs "size (vs ! i)" size] by simp
    with TemplateResult show ?thesis by (simp add: valueAt_def)
  qed
  show ?thesis
    by (lexicographic_order simp: size_valueAt)
qed

definition render :: "nat \<Rightarrow> env \<Rightarrow> val \<Rightarrow> world \<Rightarrow> world gen" where
  "render n env v w = renderValue n env v (w\<lparr>instances := []\<rparr>)"

section \<open>Notions used by the statements\<close>

text \<open>A generator with its returned value mapped.\<close>

definition gen_map :: "('a \<Rightarrow> 'b) \<Rightarrow> 'a gen \<Rightarrow> 'b gen" where
  "gen_map f m = (fst m, map_sum id f (snd m))"


text \<open>
  The run of the loop of \<open>renderTemplateResult\<close> over the children of the parsed
  fragment, from the initial cursors: the chunks it yields, and the cursors and the
  state it ends with.
\<close>

definition traversal :: "nat \<Rightarrow> env \<Rightarrow> tresult \<Rightarrow> world \<Rightarrow> (cursor \<times> world) gen" where
  "traversal n env r w =
     renderChildNodes (\<lambda>i. renderValue n env (valueAt r i)) env r (fst (getTemplate env r w))
       (case ast (fst (getTemplate env r w)) of DocumentFragment nodes \<Rightarrow> nodes)
       (initialCursor, snd (getTemplate env r w))"

section \<open>Example templates\<close>

text \<open>
  Collaborators for the examples: the parser returns the tree \<open>a\<close>; \<open>x-foo\<close> is a
  registered element, \<open>x-bad\<close> a registered element whose constructor throws; the name
  of an attribute is the text between the last blank and the equals sign after it,
  which is what \<open>lastAttributeNameRegex\<close> finds in the strings used below (it stands
  for the expression on these strings only); expanding
  an element yields the tag name of the topmost frame, to show which frame that is.
\<close>

definition ex_lastAttributeName :: "string \<Rightarrow> string option" where
  "ex_lastAttributeName s =
     (let afterBlank = rev (takeWhile (\<lambda>c. c \<noteq> CHR '' '') (rev s));
          nm = takeWhile (\<lambda>c. c \<noteq> CHR ''='') afterBlank
      in if nm = [] \<or> nm = afterBlank then None else Some nm)"

definition ex_element :: litElement where
  "ex_element = \<lparr>properties = Map.empty, renderLight = (\<lambda>ps. Inr (Str ''light''))\<rparr>"

definition ex_env :: "fragment \<Rightarrow> env" where
  "ex_env a =
     \<lparr>parseFragment = (\<lambda>h. a),
      customElements_get =
        (\<lambda>tag. if tag = ''x-foo'' then Some (Inr ex_element)
               else if tag = ''x-bad'' then Some (Inl (Thrown ''constructor failed''))
               else None),
      reflectedAttributeName = (\<lambda>tag prop. None),
      lastAttributeName = ex_lastAttributeName,
      renderElement =
        (\<lambda>ref w. ([case instances w of [] \<Rightarrow> [] | f # fs \<Rightarrow> frame_tagName (last (f # fs))],
                  Inr w)),
      repeatPreRenderer = (\<lambda>k w. ([], Inr w)),
      fnText = (\<lambda>v. ''function'')\<rparr>"

definition ex_world :: world where
  "ex_world = \<lparr>instances = [], heap = [], templateCache = Map.empty, console = []\<rparr>"













text \<open>\<open><p>Hello, ${name}!</p>\<close>\<close>

definition nodes_hello :: "node list" where
  "nodes_hello =
     [Element ''p'' [] \<lparr>attrs_location = [], startTag_endOffset = 3\<rparr>
        [TextNode ''Hello, '',
         CommentNode marker \<lparr>startOffset = 10, endOffset = 10 + length nodeMarker\<rparr>,
         TextNode ''!'']]"

definition ast_hello :: fragment where
  "ast_hello = DocumentFragment nodes_hello"

definition result_hello :: "val list \<Rightarrow> tresult" where
  "result_hello vs =
     TemplateResult 3 [''<p>Hello, '', ''!</p>''] vs ''D3''
       (''<p>Hello, '' @ nodeMarker @ ''!</p>'')"

definition template_hello :: template where
  "template_hello =
     \<lparr>html = ''<p>Hello, '' @ nodeMarker @ ''!</p>'', ast = ast_hello, parts = [NodePart 2]\<rparr>"

definition world_hello :: world where
  "world_hello = ex_world\<lparr>templateCache := [3 \<mapsto> template_hello]\<rparr>"

text \<open>\<open><div><x-foo></x-foo></div>\<close>\<close>

definition element_xfoo :: node where
  "element_xfoo = Element ''x-foo'' [] \<lparr>attrs_location = [], startTag_endOffset = 12\<rparr> []"

definition element_div :: node where
  "element_div = Element ''div'' [] \<lparr>attrs_location = [], startTag_endOffset = 5\<rparr> [element_xfoo]"

definition ast_nested :: fragment where
  "ast_nested = DocumentFragment [element_div]"

definition result_nested :: tresult where
  "result_nested =
     TemplateResult 4 [''<div><x-foo></x-foo></div>''] [] ''D4'' ''<div><x-foo></x-foo></div>''"

definition template_nested :: template where
  "template_nested = \<lparr>html = ''<div><x-foo></x-foo></div>'', ast = ast_nested, parts = []\<rparr>"




text \<open>\<open><!--x-->${v}\<close>: a comment of the author before a marker comment.\<close>

definition ast_comments :: fragment where
  "ast_comments =
     DocumentFragment
       [CommentNode ''x'' \<lparr>startOffset = 0, endOffset = 8\<rparr>,
        CommentNode marker \<lparr>startOffset = 8, endOffset = 8 + length nodeMarker\<rparr>]"

section \<open>Facts about strings, generators and markers\<close>

lemma substring_to_end: "substring s lo None = drop lo s"
  by (simp add: substring_def Let_def min_def max_def)

lemma substring_between:
  "lo \<le> hi \<Longrightarrow> hi \<le> length s \<Longrightarrow> substring s lo (Some hi) = take (hi - lo) (drop lo s)"
  by (simp add: substring_def Let_def min_def max_def)

lemma gen_bind_return [simp]: "gen_bind (gen_return x) f = f x"
  by (simp add: gen_bind_def gen_return_def split: prod.splits)

lemma gen_bind_throw [simp]: "gen_bind (gen_throw e) f = gen_throw e"
  by (simp add: gen_bind_def gen_throw_def)

lemma gen_bind_Inl [simp]: "gen_bind (cs, Inl e) f = (cs, Inl e)"
  by (simp add: gen_bind_def)

lemma gen_bind_Inr: "gen_bind (cs, Inr x) f = (cs @ fst (f x), snd (f x))"
  by (simp add: gen_bind_def split: prod.splits)

lemma gen_bind_yield: "gen_bind (gen_yield s) f = (s # fst (f ()), snd (f ()))"
  by (simp add: gen_yield_def gen_bind_Inr)

lemmas gen_simps = gen_bind_Inr gen_return_def gen_throw_def gen_yield_def gen_lift_def

lemma gen_bind_ok:
  "gen_bind m f = (cs, Inr y) \<longleftrightarrow>
     (\<exists>cs1 x cs2. m = (cs1, Inr x) \<and> f x = (cs2, Inr y) \<and> cs = cs1 @ cs2)"
  by (cases m; cases "snd m") (auto simp: gen_bind_def split: prod.splits)

lemma gen_yield_ok: "gen_yield s = (cs, Inr x) \<longleftrightarrow> cs = [s]"
  by (auto simp: gen_yield_def)

lemma gen_return_ok: "gen_return x = (cs, Inr y) \<longleftrightarrow> cs = [] \<and> x = y"
  by (auto simp: gen_return_def)

lemma gen_throw_ok: "gen_throw e = (cs, Inr y) \<longleftrightarrow> False"
  by (auto simp: gen_throw_def)

lemma gen_lift_ok: "gen_lift r = (cs, Inr y) \<longleftrightarrow> cs = [] \<and> r = Inr y"
  by (auto simp: gen_lift_def)

lemmas gen_ok = gen_bind_ok gen_yield_ok gen_return_ok gen_throw_ok gen_lift_ok

lemma gen_map_pair [simp]:
  "gen_map f (cs, Inl e) = (cs, Inl e)" "gen_map f (cs, Inr x) = (cs, Inr (f x))"
  by (simp_all add: gen_map_def)

lemma closePart_eq:
  "closePart m = (fst m @ (case snd m of Inl e \<Rightarrow> [] | Inr w \<Rightarrow> [''<!--/lit-part-->'']), snd m)"
  by (cases m; cases "snd m") (auto simp: closePart_def gen_return_def gen_bind_Inr gen_bind_yield)

lemma barePart_eq:
  "barePart m =
     (''<!--lit-part-->'' # fst m @ (case snd m of Inl e \<Rightarrow> [] | Inr w \<Rightarrow> [''<!--/lit-part-->'']),
      snd m)"
  by (simp add: barePart_def closePart_eq gen_bind_yield)

lemma digestPart_eq:
  "digestPart d m =
     ((''<!--lit-part '' @ d @ ''-->'') # fst m
        @ (case snd m of Inl e \<Rightarrow> [] | Inr w \<Rightarrow> [''<!--/lit-part-->'']),
      snd m)"
  by (simp add: digestPart_def closePart_eq gen_bind_yield)

text \<open>The facts that evaluate a render of a concrete template.\<close>

lemmas model_defs = renderTemplate_def getTemplate_def handleElement_def
  handleAttr_def bindAttr_def instantiate_def finishTemplate_def enterNode_def leaveNode_def
  pushFrame_def popFrame_def markerSpan_def nextPart_def flushTo_def skipTo_def
  initialCursor_def substring_def startsWith_def endsWith_def split_markerRegex_def
  matchMarker_def marker_def nodeMarker_def boundAttributeSuffix_def valueAt_def stringAt_def
  partAt_def getAttrValue_def barePart_eq digestPart_eq closePart_eq stringPart_def
  gen_return_def gen_throw_def gen_lift_def gen_yield_def gen_bind_Inr
  ex_env_def ex_world_def ex_lastAttributeName_def ex_element_def Let_def






section \<open>The flush offset stays defined during a traversal\<close>

lemma skipTo_defined: "skipTo off cur = Inr cur' \<Longrightarrow> lastOffset cur' = Some off"
  by (auto simp: skipTo_def split: option.splits if_splits)

lemma flushTo_Some_defined:
  "flushTo h (Some off) cur = Inr (s, cur') \<Longrightarrow> lastOffset cur' = Some off"
  by (auto simp: flushTo_def split: option.splits)

lemma handleAttr_lastOffset:
  assumes "handleAttr env r t tag loc inst attr (cur, w, k) = (cs, Inr (cur', w', k'))"
    and "lastOffset cur \<noteq> None"
  shows "lastOffset cur' \<noteq> None"
proof (cases "endsWith (attr_name attr) ''$lit$''")
  case False
  with assms show ?thesis by (simp add: handleAttr_def gen_ok)
next
  case True
  with assms(1) show ?thesis
    by (auto simp: handleAttr_def Let_def gen_ok dest!: skipTo_defined split: option.splits)
qed

lemma handleAttrs_lastOffset:
  "handleAttrs env r t tag loc inst as st = (cs, Inr st') \<Longrightarrow> lastOffset (fst st) \<noteq> None
     \<Longrightarrow> lastOffset (fst st') \<noteq> None"
proof (induction as arbitrary: st cs)
  case Nil
  then show ?case by (simp add: gen_ok)
next
  case (Cons a as)
  from Cons.prems(1) obtain cs1 st1 cs2 where
    1: "handleAttr env r t tag loc inst a st = (cs1, Inr st1)" and
    2: "handleAttrs env r t tag loc inst as st1 = (cs2, Inr st')"
    by (auto simp: gen_ok)
  from 1 Cons.prems(2) have "lastOffset (fst st1) \<noteq> None"
    using handleAttr_lastOffset[of env r t tag loc inst a "fst st" "fst (snd st)" "snd (snd st)" cs1
        "fst st1" "fst (snd st1)" "snd (snd st1)"] by simp
  with 2 show ?case by (rule Cons.IH)
qed


lemma handleElement_lastOffset:
  assumes "handleElement env r t tag as loc (cur, w) = (cs, Inr (cur', w'))"
    and "lastOffset cur \<noteq> None"
  shows "lastOffset cur' \<noteq> None"
proof -
  obtain inst writeTag w1 where i: "instantiate env tag w = (inst, writeTag, w1)"
    by (cases "instantiate env tag w") auto
  from assms(1) i obtain cs1 cur1 w2 k cs2 where
    1: "handleAttrs env r t tag loc inst as (cur, w1, 0) = (cs1, Inr (cur1, w2, k))" and
    2: "gen_bind
          (if writeTag \<or> k > 0
           then gen_bind (gen_lift (flushTo (html t) (Some (startTag_endOffset loc)) cur1))
                  (\<lambda>(s, cur2). gen_bind (gen_yield s) (\<lambda>_. gen_return cur2))
           else gen_return cur1)
          (\<lambda>cur2.
             gen_bind
               (if k > 0
                then (case partAt (parts t) (templatePartIndex cur2) of
                        None \<Rightarrow> gen_throw TypeError
                      | Some templatePart \<Rightarrow>
                          gen_yield (''<!--lit-bindings '' @ show_int (part_index templatePart)
                                     @ ''-->''))
                else gen_return ())
               (\<lambda>_. case inst of
                       None \<Rightarrow> gen_return (cur2, w2)
                     | Some ref \<Rightarrow>
                         gen_bind (renderElement env ref w2)
                           (\<lambda>w3. gen_return (cur2, w3)))) = (cs2, Inr (cur', w'))"
    by (auto simp: handleElement_def gen_ok)
  from 1 assms(2) have d: "lastOffset cur1 \<noteq> None"
    using handleAttrs_lastOffset[of env r t tag loc inst as "(cur, w1, 0)" cs1 "(cur1, w2, k)"]
    by simp
  from 2 obtain cs3 cur2 where
    3: "(if writeTag \<or> k > 0
           then gen_bind (gen_lift (flushTo (html t) (Some (startTag_endOffset loc)) cur1))
                  (\<lambda>(s, cur2). gen_bind (gen_yield s) (\<lambda>_. gen_return cur2))
           else gen_return cur1) = (cs3, Inr cur2)" and
    4: "\<exists>cs4. gen_bind
               (if k > 0
                then (case partAt (parts t) (templatePartIndex cur2) of
                        None \<Rightarrow> gen_throw TypeError
                      | Some templatePart \<Rightarrow>
                          gen_yield (''<!--lit-bindings '' @ show_int (part_index templatePart)
                                     @ ''-->''))
                else gen_return ())
               (\<lambda>_. case inst of
                       None \<Rightarrow> gen_return (cur2, w2)
                     | Some ref \<Rightarrow>
                         gen_bind (renderElement env ref w2)
                           (\<lambda>w3. gen_return (cur2, w3))) = (cs4, Inr (cur', w'))"
    by (auto simp: gen_ok)
  from 4 have "cur' = cur2"
    by (auto simp: gen_ok split: option.splits if_splits)
  moreover from 3 d have "lastOffset cur2 \<noteq> None"
    by (auto simp: gen_ok dest!: flushTo_Some_defined split: if_splits)
  ultimately show ?thesis by simp
qed

lemma handleNode_lastOffset:
  assumes "handleNode rv env r t node st = (cs, Inr st')" and "lastOffset (fst st) \<noteq> None"
  shows "lastOffset (fst st') \<noteq> None"
proof (cases st)
  case (Pair cur w)
  show ?thesis
  proof (cases node)
    case (CommentNode d loc)
    with assms Pair show ?thesis
      by (auto simp: markerSpan_def nextPart_def gen_ok dest!: skipTo_defined split: if_splits)
  next
    case (Element tag as loc cs')
    with assms Pair show ?thesis
      using handleElement_lastOffset[of env r t tag as loc cur w cs "fst st'" "snd st'"] by simp
  qed (use assms Pair in \<open>auto simp: gen_ok\<close>)
qed

lemma handleNodes_lastOffset:
  "handleNodes rv env r t nodes st = (cs, Inr st') \<Longrightarrow> lastOffset (fst st) \<noteq> None
     \<Longrightarrow> lastOffset (fst st') \<noteq> None"
proof (induction nodes arbitrary: st cs)
  case Nil
  then show ?case by (simp add: gen_ok)
next
  case (Cons n nodes)
  from Cons.prems(1) obtain cs1 st1 cs2 where
    1: "handleNode rv env r t n st = (cs1, Inr st1)" and
    2: "handleNodes rv env r t nodes st1 = (cs2, Inr st')"
    by (auto simp: gen_ok)
  from 1 Cons.prems(2) have "lastOffset (fst st1) \<noteq> None" by (rule handleNode_lastOffset)
  with 2 show ?case by (rule Cons.IH)
qed

lemma enterNode_cursor [simp]: "fst (enterNode n st) = fst st"
  by (simp add: enterNode_def split: prod.splits)

lemma leaveNode_cursor [simp]: "fst (leaveNode n st) = fst st"
  by (simp add: leaveNode_def split: prod.splits)

lemma renderChildNodes_lastOffset:
  "renderChildNodes rv env r t nodes st = (cs, Inr st') \<Longrightarrow> lastOffset (fst st) \<noteq> None
     \<Longrightarrow> lastOffset (fst st') \<noteq> None"
proof (induction nodes arbitrary: st cs)
  case Nil
  then show ?case by (simp add: gen_ok)
next
  case (Cons n nodes)
  from Cons.prems(1) obtain cs1 st1 cs2 where
    1: "handleNodes rv env r t (depthFirst n) (enterNode n st) = (cs1, Inr st1)" and
    2: "renderChildNodes rv env r t nodes (leaveNode n st1) = (cs2, Inr st')"
    by (auto simp: gen_ok)
  from 1 Cons.prems(2) have "lastOffset (fst st1) \<noteq> None"
    using handleNodes_lastOffset[of rv env r t "depthFirst n" "enterNode n st" cs1 st1] by simp
  then have "lastOffset (fst (leaveNode n st1)) \<noteq> None" by simp
  with 2 show ?case by (rule Cons.IH)
qed

lemma traversal_defined:
  "traversal n env r w = (cs, Inr (cur, w')) \<Longrightarrow> \<exists>lo. lastOffset cur = Some lo"
  using renderChildNodes_lastOffset[of "\<lambda>i. renderValue n env (valueAt r i)" env r
      "fst (getTemplate env r w)"
      "case ast (fst (getTemplate env r w)) of DocumentFragment nodes \<Rightarrow> nodes"
      "(initialCursor, snd (getTemplate env r w))" cs "(cur, w')"]
  by (simp add: traversal_def initialCursor_def)

section \<open>The end of renderTemplateResult\<close>

lemma finishTemplate_eq:
  "lastOffset cur = Some lo \<Longrightarrow>
   finishTemplate r t (cur, w) =
     ([drop lo (html t)],
      if partIndex cur \<noteq> length (vals r)
      then Inl (UnexpectedFinalPartIndex (partIndex cur) (length (vals r))) else Inr w)"
  by (simp add: finishTemplate_def flushTo_def gen_simps substring_to_end)

text \<open>The guard of \<open>renderTemplateResult\<close> is never taken: the run is the traversal and the end.\<close>

lemma renderTemplateResult_eq:
  "renderTemplateResult n env r w
     = gen_bind (traversal n env r w) (finishTemplate r (fst (getTemplate env r w)))"
  by (cases "getTemplate env r w"; cases "ast (fst (getTemplate env r w))")
    (simp add: renderTemplate_def traversal_def)

lemma renderTemplateResult_after_traversal:
  assumes "traversal n env r w = (cs, Inr (cur, w'))"
  shows "\<exists>lo. lastOffset cur = Some lo \<and>
     renderTemplateResult n env r w =
       (cs @ [drop lo (html (fst (getTemplate env r w)))],
        if partIndex cur \<noteq> length (vals r)
        then Inl (UnexpectedFinalPartIndex (partIndex cur) (length (vals r))) else Inr w')"
proof -
  from assms obtain lo where lo: "lastOffset cur = Some lo"
    using traversal_defined by blast
  with assms show ?thesis
    unfolding renderTemplateResult_eq by (simp add: finishTemplate_eq gen_simps)
qed

lemma renderTemplateResult_traversal_error:
  assumes "traversal n env r w = (cs, Inl e)"
  shows "renderTemplateResult n env r w = (cs, Inl e)"
  using assms unfolding renderTemplateResult_eq by simp

section \<open>Bindings of an element without an instance\<close>









section \<open>The frames pushed by traverse are popped again\<close>

lemma traverse_fold_id:
  "(\<And>c st. c \<in> set cs \<Longrightarrow> traverse c st = st) \<Longrightarrow> fold traverse cs st = st"
  by (induction cs arbitrary: st) simp_all

lemma traverse_id: "traverse n st = st"
proof (induction n st rule: traverse.induct)
  case (1 t as l cs st)
  have "fold traverse cs (pushFrame (Element t as l cs) st) = pushFrame (Element t as l cs) st"
    by (rule traverse_fold_id) (rule 1)
  then show ?case by (simp add: pushFrame_def popFrame_def)
qed simp_all

section \<open>The claims\<close>

text \<open>
  C1. A run of \<open>renderTemplateResult\<close> that completes normally has consumed exactly
  \<open>values.length\<close> values: the traversal ended with the value cursor at
  \<open>values.length\<close>. A traversal that ends with another value cursor makes the run
  throw the error of the final check, after the tail is flushed.
\<close>

theorem C1_final_value_cursor:
  "(renderTemplateResult n env r w = (cs, Inr w') \<longrightarrow>
      (\<exists>cs0 cur. traversal n env r w = (cs0, Inr (cur, w'))
         \<and> partIndex cur = length (vals r)))
   \<and> (traversal n env r w = (csT, Inr (curT, wT)) \<and> partIndex curT \<noteq> length (vals r) \<longrightarrow>
        snd (renderTemplateResult n env r w)
          = Inl (UnexpectedFinalPartIndex (partIndex curT) (length (vals r))))"
proof -
  have a: "renderTemplateResult n env r w = (cs, Inr w') \<longrightarrow>
            (\<exists>cs0 cur. traversal n env r w = (cs0, Inr (cur, w'))
               \<and> partIndex cur = length (vals r))"
  proof
    assume ok: "renderTemplateResult n env r w = (cs, Inr w')"
    obtain cs0 res where tr: "traversal n env r w = (cs0, res)"
      by (cases "traversal n env r w")
    show "\<exists>cs0 cur. traversal n env r w = (cs0, Inr (cur, w'))
               \<and> partIndex cur = length (vals r)"
    proof (cases res)
      case (Inl e)
      with tr ok show ?thesis
        using renderTemplateResult_traversal_error[of n env r w cs0 e] by simp
    next
      case (Inr p)
      obtain cur w2 where p: "p = (cur, w2)" by (cases p)
      with tr Inr ok show ?thesis
        using renderTemplateResult_after_traversal[of n env r w cs0 cur w2]
        by (auto split: if_splits)
    qed
  qed
  have b: "traversal n env r w = (csT, Inr (curT, wT)) \<and> partIndex curT \<noteq> length (vals r) \<longrightarrow>
            snd (renderTemplateResult n env r w)
              = Inl (UnexpectedFinalPartIndex (partIndex curT) (length (vals r)))"
    using renderTemplateResult_after_traversal[of n env r w csT curT wT] by auto
  from a b show ?thesis by blast
qed

text \<open>
  The template \<open><p>Hello, ${name}!</p>\<close>: with one value the run completes and the
  traversal ends with the value cursor at 1; with no value the run throws.
\<close>

theorem C1_witness:
  "renderTemplateResult 0 (ex_env ast_hello) (result_hello [Str ''World'']) ex_world
     = ([''<p>Hello, '', ''<!--lit-part-->'', ''World'', ''<!--/lit-part-->'', ''!</p>''],
        Inr world_hello)
   \<and> (\<exists>cs0 cur. traversal 0 (ex_env ast_hello) (result_hello [Str ''World'']) ex_world
                   = (cs0, Inr (cur, world_hello))
        \<and> partIndex cur = length (vals (result_hello [Str ''World''])))
   \<and> snd (renderTemplateResult 0 (ex_env ast_hello) (result_hello []) ex_world)
       = Inl (UnexpectedFinalPartIndex 1 0)"
proof -
  let ?E = "ex_env ast_hello"
  have ok: "renderTemplateResult 0 ?E (result_hello [Str ''World'']) ex_world
     = ([''<p>Hello, '', ''<!--lit-part-->'', ''World'', ''<!--/lit-part-->'', ''!</p>''],
        Inr world_hello)"
    by (simp add: model_defs ast_hello_def nodes_hello_def result_hello_def world_hello_def
        template_hello_def traverse_id)
  have tr: "traversal 0 ?E (result_hello []) ex_world
     = ([''<p>Hello, '', ''<!--lit-part-->'', ''<!--/lit-part-->''],
        Inr (\<lparr>partIndex = 1, templatePartIndex = 0, lastOffset = Some 32\<rparr>, world_hello))"
    by (simp add: traversal_def model_defs ast_hello_def nodes_hello_def result_hello_def
        world_hello_def template_hello_def traverse_id)
  from C1_final_value_cursor[where n = 0 and env = ?E and r = "result_hello [Str ''World'']"
      and w = ex_world and w' = world_hello
      and cs = "[''<p>Hello, '', ''<!--lit-part-->'', ''World'', ''<!--/lit-part-->'', ''!</p>'']"] ok
  have 1: "\<exists>cs0 cur. traversal 0 ?E (result_hello [Str ''World'']) ex_world
                   = (cs0, Inr (cur, world_hello))
        \<and> partIndex cur = length (vals (result_hello [Str ''World'']))"
    by blast
  from C1_final_value_cursor[where n = 0 and env = ?E and r = "result_hello []"
      and w = ex_world and wT = world_hello
      and csT = "[''<p>Hello, '', ''<!--lit-part-->'', ''<!--/lit-part-->'']"
      and curT = "\<lparr>partIndex = 1, templatePartIndex = 0, lastOffset = Some 32\<rparr>"] tr
  have 2: "snd (renderTemplateResult 0 ?E (result_hello []) ex_world)
       = Inl (UnexpectedFinalPartIndex 1 0)"
    by (simp add: result_hello_def)
  from ok 1 2 show ?thesis by blast
qed

text \<open>
  C2. The claim lets a comment that is not the marker advance the node index by one.
  In \<open>getTemplate\<close> every comment advances it by two, marker or not; the part of a
  marker comment is recorded at the index before these increments. For
  \<open><!--x-->${v}\<close> the part is recorded at index 2, where the claim gives 1.
\<close>

theorem C2_comment_advances_by_two:
  "fst (extractNode (CommentNode d l) (i, ps)) = i + 2
   \<and> snd (extractNode (CommentNode marker l) (i, ps)) = ps @ [NodePart i]
   \<and> extractParts ast_comments = (4, [NodePart 2])"
  by (simp add: ast_comments_def Let_def marker_def)




text \<open>
  C4. The claim makes the topmost frame the frame of the nearest enclosing custom
  element. The frames that \<open>traverse\<close> pushes are popped before the first node is
  handled: entering a top-level node leaves its own frame only, so while the nodes
  under it are handled the topmost frame is the frame of that top-level node. For \<open><div><x-foo></x-foo></div>\<close> the
  expansion of \<open>x-foo\<close> finds the frame of \<open>div\<close> on top, and the instance of
  \<open>x-foo\<close> is stored in the frame of \<open>div\<close>.
\<close>

theorem C4_top_frame_is_top_level_node:
  "instances (snd (enterNode node (cur, w))) = pushFrame node (instances w)
   \<and> fst (renderTemplateResult 0 (ex_env ast_nested) result_nested ex_world)
     = [''<div><x-foo>'', ''div'', ''</x-foo></div>'']
   \<and> map_sum id (\<lambda>(cur, w). instances w)
        (snd (handleNodes (\<lambda>i. renderValue 0 (ex_env ast_nested) (valueAt result_nested i))
                (ex_env ast_nested) result_nested template_nested (depthFirst element_div)
                (enterNode element_div (initialCursor, ex_world))))
     = Inr [\<lparr>frame_tagName = ''div'', frame_instance = Some 0\<rparr>]"
  by (simp add: model_defs ast_nested_def element_div_def element_xfoo_def result_nested_def
      template_nested_def traverse_id)




text \<open>
  C6. Once the traversal of the tree completes, \<open>renderTemplateResult\<close> yields, after
  the chunks of the traversal, the HTML from the last flushed offset to its end, for
  every parsed fragment, every result and every state: the flush offset is defined at
  that point, so the flush does not throw.
\<close>

theorem C6_tail_flushed:
  assumes "traversal n env r w = (cs, Inr (cur, w'))"
  shows "\<exists>lo. lastOffset cur = Some lo
     \<and> fst (renderTemplateResult n env r w) = cs @ [drop lo (html (fst (getTemplate env r w)))]"
  using renderTemplateResult_after_traversal[OF assms] by auto

theorem C6_witness:
  "fst (renderTemplateResult 0 (ex_env ast_hello) (result_hello [Str ''World'']) ex_world)
     = [''<p>Hello, '', ''<!--lit-part-->'', ''World'', ''<!--/lit-part-->''] @ [''!</p>'']"
proof -
  let ?E = "ex_env ast_hello" and ?R = "result_hello [Str ''World'']"
  have g: "getTemplate ?E ?R ex_world = (template_hello, world_hello)"
    by (simp add: getTemplate_def ex_env_def ex_world_def result_hello_def
        ast_hello_def nodes_hello_def template_hello_def world_hello_def Let_def marker_def
        nodeMarker_def)
  have tr: "traversal 0 ?E ?R ex_world
     = ([''<p>Hello, '', ''<!--lit-part-->'', ''World'', ''<!--/lit-part-->''],
        Inr (\<lparr>partIndex = 1, templatePartIndex = 0, lastOffset = Some 32\<rparr>, world_hello))"
    by (simp add: traversal_def model_defs ast_hello_def nodes_hello_def result_hello_def
        world_hello_def template_hello_def traverse_id)
  from C6_tail_flushed[OF tr] show ?thesis
    by (simp add: g template_hello_def marker_def nodeMarker_def)
qed



text \<open>
  C8. \<open>getTemplate\<close> is memoized on the identity of the strings array. With no entry
  for the identity it parses the HTML, extracts the parts and stores the template; a
  later call with the same identity returns the stored template and leaves the cache as
  it is, whatever the parser and the result's HTML are by then (nothing is parsed
  again); and a render after a call of \<open>getTemplate\<close> is the render without it.
\<close>

theorem C8_getTemplate_memoized:
  "(templateCache w (strings_id r) = None \<longrightarrow>
      getTemplate env r w =
        (\<lparr>html = getHTML r, ast = parseFragment env (getHTML r),
          parts = snd (extractParts (parseFragment env (getHTML r)))\<rparr>,
         w\<lparr>templateCache := (templateCache w)(strings_id r \<mapsto>
            \<lparr>html = getHTML r, ast = parseFragment env (getHTML r),
             parts = snd (extractParts (parseFragment env (getHTML r)))\<rparr>)\<rparr>))
   \<and> (getTemplate env r w = (t, w') \<and> strings_id r' = strings_id r \<longrightarrow>
        getTemplate env' r' w' = (t, w'))
   \<and> renderTemplateResult n env r (snd (getTemplate env r w)) = renderTemplateResult n env r w"
  by (auto simp: getTemplate_def Let_def renderTemplate_def split: option.splits)

text \<open>
  The template of \<open><p>Hello, ${name}!</p>\<close> is parsed at the first call; the second
  call, with another parser and other values, returns it from the cache.
\<close>

theorem C8_witness:
  "getTemplate (ex_env ast_hello) (result_hello [Str ''World'']) ex_world
     = (template_hello, world_hello)
   \<and> getTemplate (ex_env ast_nested) (result_hello []) world_hello
     = (template_hello, world_hello)"
proof -
  have 1: "getTemplate (ex_env ast_hello) (result_hello [Str ''World'']) ex_world
     = (template_hello, world_hello)"
    using C8_getTemplate_memoized[of ex_world "result_hello [Str ''World'']" "ex_env ast_hello"]
    by (simp add: ex_env_def ex_world_def result_hello_def ast_hello_def
        nodes_hello_def template_hello_def world_hello_def marker_def nodeMarker_def)
  have 2: "strings_id (result_hello []) = strings_id (result_hello [Str ''World''])"
    by (simp add: result_hello_def)
  from C8_getTemplate_memoized[of ex_world "result_hello [Str ''World'']" "ex_env ast_hello"
      template_hello world_hello "result_hello []" "ex_env ast_nested"] 1 2
  have "getTemplate (ex_env ast_nested) (result_hello []) world_hello
     = (template_hello, world_hello)"
    by blast
  with 1 show ?thesis by blast
qed

text \<open>
  C9. With an undefined flush offset \<open>flushTo\<close> throws (and so does \<open>skipTo\<close>).
  With a defined one, \<open>flushTo\<close> returns the substring from the flush offset to the
  target and sets the flush offset to the target; \<open>skipTo\<close> throws when the target is
  less than the flush offset and sets the flush offset to the target otherwise. The
  substring is that of the host language: between two offsets in order and inside the
  HTML it is the text between them, and with no target it runs to the end.
\<close>

theorem C9_offset_primitives:
  "(lastOffset cur = None \<longrightarrow>
      flushTo h target cur = Inl LastOffsetUndefined \<and> skipTo to cur = Inl LastOffsetUndefined)
   \<and> (lastOffset cur = Some lo \<longrightarrow>
         flushTo h target cur = Inr (substring h lo target, cur\<lparr>lastOffset := target\<rparr>)
       \<and> (to < lo \<longrightarrow> skipTo to cur = Inl (OffsetBackwards to lo))
       \<and> (lo \<le> to \<longrightarrow> skipTo to cur = Inr (cur\<lparr>lastOffset := Some to\<rparr>))
       \<and> (lo \<le> to \<and> to \<le> length h \<longrightarrow> substring h lo (Some to) = take (to - lo) (drop lo h))
       \<and> substring h lo None = drop lo h)"
  by (simp add: flushTo_def skipTo_def substring_to_end substring_between)

theorem C9_witness:
  "flushTo ''<p>hi</p>'' None (initialCursor\<lparr>lastOffset := None\<rparr>) = Inl LastOffsetUndefined
   \<and> flushTo ''<p>hi</p>'' (Some 3) initialCursor
       = Inr (''<p>'', initialCursor\<lparr>lastOffset := Some 3\<rparr>)
   \<and> skipTo 5 (initialCursor\<lparr>lastOffset := Some 3\<rparr>) = Inr (initialCursor\<lparr>lastOffset := Some 5\<rparr>)
   \<and> skipTo 1 (initialCursor\<lparr>lastOffset := Some 3\<rparr>) = Inl (OffsetBackwards 1 3)
   \<and> flushTo ''<p>hi</p>'' None (initialCursor\<lparr>lastOffset := Some 5\<rparr>)
       = Inr (''</p>'', initialCursor\<lparr>lastOffset := None\<rparr>)"
proof -
  note p = C9_offset_primitives[where h = "''<p>hi</p>''"]
  have 1: "flushTo ''<p>hi</p>'' None (initialCursor\<lparr>lastOffset := None\<rparr>) = Inl LastOffsetUndefined"
    using p[of "initialCursor\<lparr>lastOffset := None\<rparr>" None] by simp
  have 2: "flushTo ''<p>hi</p>'' (Some 3) initialCursor
       = Inr (''<p>'', initialCursor\<lparr>lastOffset := Some 3\<rparr>)"
    using p[of initialCursor "Some 3" 3 0] by (simp add: initialCursor_def)
  have 3: "skipTo 5 (initialCursor\<lparr>lastOffset := Some 3\<rparr>) = Inr (initialCursor\<lparr>lastOffset := Some 5\<rparr>)"
    using p[of "initialCursor\<lparr>lastOffset := Some 3\<rparr>" None 5 3] by simp
  have 4: "skipTo 1 (initialCursor\<lparr>lastOffset := Some 3\<rparr>) = Inl (OffsetBackwards 1 3)"
    using p[of "initialCursor\<lparr>lastOffset := Some 3\<rparr>" None 1 3] by simp
  have 5: "flushTo ''<p>hi</p>'' None (initialCursor\<lparr>lastOffset := Some 5\<rparr>)
       = Inr (''</p>'', initialCursor\<lparr>lastOffset := None\<rparr>)"
    using p[of "initialCursor\<lparr>lastOffset := Some 5\<rparr>" None 5 5] by simp
  from 1 2 3 4 5 show ?thesis by blast
qed

text \<open>
  C10. \<open>renderValue\<close> of a render-light directive with an empty stack of frames, as
  \<open>render\<close> starts with, yields the opening comment and throws a type error at the
  read of the missing topmost frame. With a frame on the stack that holds no instance it
  yields the wrapped empty output.
\<close>

theorem C10_renderLight_needs_frame:
  "renderValue n env RenderLightDirective (w\<lparr>instances := []\<rparr>)
     = ([''<!--lit-part-->''], Inl TypeError)
   \<and> render n env RenderLightDirective w = ([''<!--lit-part-->''], Inl TypeError)
   \<and> (instances w \<noteq> [] \<and> frame_instance (last (instances w)) = None \<longrightarrow>
        renderValue n env RenderLightDirective w
          = ([''<!--lit-part-->'', ''<!--/lit-part-->''], Inr w))"
  by (auto simp: render_def barePart_eq gen_throw_def gen_return_def split: list.splits)

theorem C10_witness:
  "render 0 (ex_env ast_hello) RenderLightDirective ex_world = ([''<!--lit-part-->''], Inl TypeError)
   \<and> renderValue 0 (ex_env ast_hello) RenderLightDirective
        (ex_world\<lparr>instances := [\<lparr>frame_tagName = ''div'', frame_instance = None\<rparr>]\<rparr>)
     = ([''<!--lit-part-->'', ''<!--/lit-part-->''],
        Inr (ex_world\<lparr>instances := [\<lparr>frame_tagName = ''div'', frame_instance = None\<rparr>]\<rparr>))"
  using C10_renderLight_needs_frame[of 0 "ex_env ast_hello" ex_world]
    C10_renderLight_needs_frame[of 0 "ex_env ast_hello"
      "ex_world\<lparr>instances := [\<lparr>frame_tagName = ''div'', frame_instance = None\<rparr>]\<rparr>"]
  by simp

end
